theory Spec2Isabelle
  imports Complex_Main
begin

section \<open>Python values\<close>

text \<open>
  A Python float is modelled by the number it denotes: a finite float is a real number,
  and the three special values are constructors of their own. The client only compares
  floats with \<open>0.0\<close> and \<open>1.0\<close>, and IEEE comparison of finite values is exact, so the
  order below is the order Python computes. Every comparison with NaN is false.
\<close>

datatype pyfloat = NaN | NegInf | Fin real | PosInf

fun float_le :: "pyfloat \<Rightarrow> pyfloat \<Rightarrow> bool" where
  "float_le NaN y = False"
| "float_le x NaN = False"
| "float_le NegInf y = True"
| "float_le x PosInf = True"
| "float_le (Fin a) (Fin b) = (a \<le> b)"
| "float_le PosInf y = False"
| "float_le x NegInf = False"

text \<open>
  The values a caller can pass and a JSON body can decode to. A dict keeps its items in
  insertion order, as an association list with string keys.
\<close>

datatype pyval =
    PNone
  | PBool bool
  | PInt int
  | PFloat pyfloat
  | PStr string
  | PList "pyval list"
  | PDict "(string \<times> pyval) list"

text \<open>\<open>isinstance(v, int)\<close>: \<open>bool\<close> is a subclass of \<open>int\<close> in Python.\<close>

fun isinstance_int :: "pyval \<Rightarrow> bool" where
  "isinstance_int (PInt i) = True"
| "isinstance_int (PBool b) = True"
| "isinstance_int v = False"

fun isinstance_float :: "pyval \<Rightarrow> bool" where
  "isinstance_float (PFloat x) = True"
| "isinstance_float v = False"

fun isinstance_str :: "pyval \<Rightarrow> bool" where
  "isinstance_str (PStr s) = True"
| "isinstance_str v = False"

text \<open>The integer an instance of \<open>int\<close> denotes (\<open>True\<close> is 1, \<open>False\<close> is 0).\<close>

fun int_of :: "pyval \<Rightarrow> int" where
  "int_of (PInt i) = i"
| "int_of (PBool b) = (if b then 1 else 0)"
| "int_of v = 0"

fun float_of :: "pyval \<Rightarrow> pyfloat" where
  "float_of (PFloat x) = x"
| "float_of v = NaN"

text \<open>Truth value testing, as \<open>if filters:\<close> performs it.\<close>

fun truthy :: "pyval \<Rightarrow> bool" where
  "truthy PNone = False"
| "truthy (PBool b) = b"
| "truthy (PInt i) = (i \<noteq> 0)"
| "truthy (PFloat x) = (x \<noteq> Fin 0)"
| "truthy (PStr s) = (s \<noteq> [])"
| "truthy (PList xs) = (xs \<noteq> [])"
| "truthy (PDict kvs) = (kvs \<noteq> [])"

text \<open>\<open>str.rstrip(chars)\<close>: drop every trailing character that occurs in \<open>chars\<close>.\<close>

definition rstrip :: "string \<Rightarrow> string \<Rightarrow> string" where
  "rstrip s chars = rev (dropWhile (\<lambda>x. x \<in> set chars) (rev s))"

section \<open>Exceptions\<close>

text \<open>
  A message is a list of fragments: literal text, and values that an f-string formats
  with \<open>str\<close>. The formatting of a value is left symbolic.
\<close>

datatype frag = Txt string | Fmt pyval

type_synonym msg = "frag list"

text \<open>The exception classes of \<open>exceptions.py\<close>; \<open>NenDBError\<close> is the base class.\<close>

datatype nen_kind =
    NenDBError
  | NenDBConnectionError
  | NenDBTimeoutError
  | NenDBValidationError
  | NenDBAlgorithmError
  | NenDBResponseError

record nen_exc =
  kind :: nen_kind
  message :: msg
  details :: "(string \<times> pyval) list"

text \<open>\<open>NenDBError.__init__\<close>: \<open>self.details = details or {}\<close>.\<close>

definition mk_exc :: "nen_kind \<Rightarrow> msg \<Rightarrow> (string \<times> pyval) list option \<Rightarrow> nen_exc" where
  "mk_exc k m d =
     \<lparr>kind = k, message = m, details = (case d of Some kvs \<Rightarrow> kvs | None \<Rightarrow> [])\<rparr>"

text \<open>\<open>NenDBError.__str__\<close>.\<close>

definition nen_str :: "nen_exc \<Rightarrow> msg" where
  "nen_str e =
     (if details e \<noteq> [] then message e @ [Txt '' - Details: '', Fmt (PDict (details e))]
      else message e)"

text \<open>
  The exception classes of the \<open>requests\<close> library that the client names, with the
  subclasses that matter for the order of its handlers: \<open>ConnectTimeout\<close> derives from
  both \<open>ConnectionError\<close> and \<open>Timeout\<close>, \<open>ReadTimeout\<close> from \<open>Timeout\<close>, and
  \<open>RetryError\<close> (retries exhausted on a status of the force list) from neither.
  \<open>Timeout\<close>, \<open>ConnectionError\<close> and \<open>HTTPError\<close> stand for the class and for its
  subclasses not listed; \<open>OtherException\<close> stands for every other subclass of
  \<open>Exception\<close>.
\<close>

datatype exc_class =
    Timeout
  | ConnectTimeout
  | ReadTimeout
  | ConnectionError
  | HTTPError
  | RetryError
  | OtherException

fun is_Timeout :: "exc_class \<Rightarrow> bool" where
  "is_Timeout Timeout = True"
| "is_Timeout ConnectTimeout = True"
| "is_Timeout ReadTimeout = True"
| "is_Timeout c = False"

fun is_ConnectionError :: "exc_class \<Rightarrow> bool" where
  "is_ConnectionError ConnectionError = True"
| "is_ConnectionError ConnectTimeout = True"
| "is_ConnectionError c = False"

fun is_HTTPError :: "exc_class \<Rightarrow> bool" where
  "is_HTTPError HTTPError = True"
| "is_HTTPError c = False"

text \<open>
  An exception in flight inside \<open>_make_request\<close>: one of the library's, with the text
  \<open>str\<close> gives for it, or one of the client's own.
\<close>

datatype py_exc = LibExc exc_class msg | NenExc nen_exc

text \<open>
  What a call of the client can raise: one of its own exceptions, or the
  \<open>UnboundLocalError\<close> of reading \<open>response\<close> before it was assigned.
\<close>

datatype raised = Nen nen_exc | UnboundLocalError

fun raised_str :: "raised \<Rightarrow> msg" where
  "raised_str (Nen e) = nen_str e"
| "raised_str UnboundLocalError =
     [Txt ''cannot access local variable 'response' where it is not associated with a value'']"

section \<open>Transport\<close>

text \<open>
  The arguments of \<open>session.request\<close>. The url is \<open>urljoin(base_url, endpoint)\<close>; it is
  kept as the pair it is computed from.
\<close>

record request =
  req_method :: string
  req_base :: string
  req_endpoint :: string
  req_json :: "(string \<times> pyval) list option"
  req_params :: "(string \<times> pyval) list option"
  req_timeout :: int

text \<open>
  A response object: its status code, reason phrase, url and text, and what
  \<open>response.json()\<close> does: \<open>Inr v\<close> when the body decodes to \<open>v\<close>, \<open>Inl m\<close> when it
  raises \<open>JSONDecodeError\<close> with text \<open>m\<close>.
\<close>

record response =
  status_code :: int
  reason :: string
  resp_url :: string
  resp_text :: string
  resp_json :: "msg + pyval"

text \<open>
  \<open>Response.raise_for_status\<close> of \<open>requests\<close>: it raises \<open>HTTPError\<close> for a status
  from 400 to 599, a client error below 500 and a server error from 500 on, and returns
  for every other status. The result is the text of the exception raised, if any.
\<close>

definition raise_for_status :: "response \<Rightarrow> msg option" where
  "raise_for_status r =
     (if 400 \<le> status_code r \<and> status_code r < 500 then
        Some [Fmt (PInt (status_code r)), Txt '' Client Error: '', Txt (reason r),
              Txt '' for url: '', Txt (resp_url r)]
      else if 500 \<le> status_code r \<and> status_code r < 600 then
        Some [Fmt (PInt (status_code r)), Txt '' Server Error: '', Txt (reason r),
              Txt '' for url: '', Txt (resp_url r)]
      else None)"

datatype outcome = Returned response | Raised exc_class msg

text \<open>The retry strategy \<open>_create_session\<close> mounts.\<close>

record retry =
  total :: int
  status_forcelist :: "int list"
  allowed_methods :: "string list"
  backoff_factor :: int

text \<open>
  What the network does with one attempt of a request: the server answers with a
  response, or the connection cannot be made in time, or it is made and no answer comes
  in time, or it fails (refused, reset, no such host). A network gives the attempts of
  a request by their number, from the requests made before.
\<close>

datatype attempt = Answered response | ConnectTimedOut | ReadTimedOut | ConnectionFailed

type_synonym network = "request list \<Rightarrow> request \<Rightarrow> nat \<Rightarrow> attempt"

text \<open>
  The adapter of \<open>requests\<close> with a \<open>Retry\<close> of urllib3 as \<open>max_retries\<close>, for a
  strategy that sets \<open>total\<close>, \<open>status_forcelist\<close> and \<open>allowed_methods\<close> and leaves
  the other counters unset, as \<open>_create_session\<close> does. A failed attempt, and an answer
  whose status is on the force list when the method is allowed, cost one of \<open>total\<close>;
  the strategy is exhausted when \<open>total\<close> falls below zero, so that \<open>total = n\<close>
  allows \<open>n\<close> retries after the first attempt. A read timeout is only retried for an
  allowed method; a connection that cannot be made is retried for every method.
  When the strategy is exhausted urllib3 raises \<open>MaxRetryError\<close> (\<open>raise_on_status\<close> is
  true by default), which the adapter raises again as \<open>ConnectTimeout\<close> when a connect
  timeout caused it, as \<open>RetryError\<close> when too many error responses did, and as
  \<open>ConnectionError\<close> otherwise, a read timeout included. A read timeout that is not
  retried is raised as \<open>ReadTimeout\<close>. The waiting between attempts, redirects and the
  \<open>Retry-After\<close> header are left out, and the text of a library exception is
  abbreviated to its cause.
\<close>

definition is_method_retryable :: "retry \<Rightarrow> string \<Rightarrow> bool" where
  "is_method_retryable rt meth = (meth \<in> set (allowed_methods rt))"

definition is_retry :: "retry \<Rightarrow> string \<Rightarrow> int \<Rightarrow> bool" where
  "is_retry rt meth status =
     (is_method_retryable rt meth \<and> status \<in> set (status_forcelist rt))"

definition increment :: "retry \<Rightarrow> retry" where
  "increment rt = rt\<lparr>total := total rt - 1\<rparr>"

definition is_exhausted :: "retry \<Rightarrow> bool" where
  "is_exhausted rt = (total rt < 0)"

function urlopen :: "retry \<Rightarrow> string \<Rightarrow> (nat \<Rightarrow> attempt) \<Rightarrow> nat \<Rightarrow> outcome" where
  "urlopen rt meth srv k =
     (case srv k of
        Answered r \<Rightarrow>
          if is_retry rt meth (status_code r) then
            (if is_exhausted (increment rt) then
               Raised RetryError
                 [Txt ''Max retries exceeded (Caused by ResponseError: too many '',
                  Fmt (PInt (status_code r)), Txt '' error responses)'']
             else urlopen (increment rt) meth srv (Suc k))
          else Returned r
      | ConnectTimedOut \<Rightarrow>
          if is_exhausted (increment rt) then
            Raised ConnectTimeout [Txt ''Max retries exceeded (Caused by ConnectTimeoutError)'']
          else urlopen (increment rt) meth srv (Suc k)
      | ReadTimedOut \<Rightarrow>
          if \<not> is_method_retryable rt meth then Raised ReadTimeout [Txt ''Read timed out.'']
          else if is_exhausted (increment rt) then
            Raised ConnectionError [Txt ''Max retries exceeded (Caused by ReadTimeoutError)'']
          else urlopen (increment rt) meth srv (Suc k)
      | ConnectionFailed \<Rightarrow>
          if is_exhausted (increment rt) then
            Raised ConnectionError [Txt ''Max retries exceeded (Caused by NewConnectionError)'']
          else urlopen (increment rt) meth srv (Suc k))"
  by pat_completeness auto
termination
  by (relation "measure (\<lambda>(rt, meth, srv, k). nat (total rt))")
     (auto simp add: is_exhausted_def increment_def)

declare urlopen.simps [simp del]

text \<open>
  A session. \<open>behaviour\<close> gives the outcome of \<open>session.request\<close> from the
  requests made so far: for the session the client creates it is the mounted adapter
  over the network, for a session that is passed in or patched it is whatever that
  session does. \<open>calls\<close> records every invocation of \<open>request\<close>. The session owns connection pools; \<open>Session.close\<close> closes
  its adapters, which dispose every pool they hold and forget it. Which pools a request
  opens is the transport's affair: what is shown of \<open>close\<close> holds for whatever pools
  the session holds.
\<close>

record session =
  behaviour :: "request list \<Rightarrow> request \<Rightarrow> outcome"
  calls :: "request list"
  mounts :: "(string \<times> retry) list"
  pools :: "nat list"
  disposed :: "nat list"

definition session_request :: "session \<Rightarrow> request \<Rightarrow> outcome \<times> session" where
  "session_request s rq = (behaviour s (calls s) rq, s\<lparr>calls := calls s @ [rq]\<rparr>)"

definition session_close :: "session \<Rightarrow> session" where
  "session_close s = s\<lparr>disposed := disposed s @ pools s, pools := []\<rparr>"

text \<open>A session object defines neither \<open>__bool__\<close> nor \<open>__len__\<close>: it is always true.\<close>

definition session_truthy :: "session \<Rightarrow> bool" where
  "session_truthy s = True"

section \<open>The client\<close>

record client =
  base_url :: string
  timeout :: int
  retries :: int
  session :: session

text \<open>
  \<open>_create_session\<close>: a new session with the retry strategy mounted for both
  schemes. The base url is taken to be under one of them, so that every request of the
  session goes through the mounted adapter.
\<close>

definition create_session :: "network \<Rightarrow> int \<Rightarrow> session" where
  "create_session net n =
     (let retry_strategy =
            \<lparr>total = n, status_forcelist = [429, 500, 502, 503, 504],
             allowed_methods = [''HEAD'', ''GET'', ''OPTIONS'', ''POST''],
             backoff_factor = 1\<rparr>
      in \<lparr>behaviour = (\<lambda>past rq. urlopen retry_strategy (req_method rq) (net past rq) 0),
          calls = [],
          mounts = [(''http://'', retry_strategy), (''https://'', retry_strategy)],
          pools = [], disposed = []\<rparr>)"

text \<open>
  The body of the \<open>try\<close> of \<open>_make_request\<close>: the request, \<open>raise_for_status\<close>, and the
  inner \<open>try\<close> around \<open>response.json()\<close>, whose handler raises \<open>NenDBResponseError\<close>
  inside the outer \<open>try\<close>. The result also tells whether \<open>response\<close> was assigned.
\<close>

definition try_body ::
  "outcome \<Rightarrow> response option \<times> (py_exc + pyval)" where
  "try_body out =
     (case out of
        Raised cls m \<Rightarrow> (None, Inl (LibExc cls m))
      | Returned r \<Rightarrow>
          (case raise_for_status r of
             Some m \<Rightarrow> (Some r, Inl (LibExc HTTPError m))
           | None \<Rightarrow>
               (case resp_json r of
                  Inr v \<Rightarrow> (Some r, Inr v)
                | Inl m \<Rightarrow>
                    (Some r,
                     Inl (NenExc (mk_exc NenDBResponseError
                            (Txt ''Invalid JSON response from server: '' # m)
                            (Some [(''status_code'', PInt (status_code r)),
                                   (''response_text'', PStr (resp_text r))])))))))"

text \<open>
  The handler for \<open>HTTPError\<close>: the error payload is a dict with a \<open>get\<close> method, or
  anything else falls back to the text of the exception.
\<close>

definition http_error_handler :: "string \<Rightarrow> msg \<Rightarrow> response option \<Rightarrow> raised" where
  "http_error_handler endpoint m ropt =
     (case ropt of
        None \<Rightarrow> UnboundLocalError
      | Some r \<Rightarrow>
          (let (error_msg, dets) =
                 (case resp_json r of
                    Inr (PDict error_data) \<Rightarrow>
                      ((case map_of error_data ''error'' of
                          Some v \<Rightarrow> [Fmt v] | None \<Rightarrow> m),
                       [(''status_code'', PInt (status_code r)),
                        (''response'', PDict error_data)])
                  | _ \<Rightarrow> (m, [(''status_code'', PInt (status_code r))]))
           in Nen (mk_exc NenDBResponseError
                     ([Txt ''HTTP error on '', Txt endpoint, Txt '': ''] @ error_msg)
                     (Some dets))))"

text \<open>
  The \<open>except\<close> clauses of the outer \<open>try\<close>, in the order of the source. The last one,
  \<open>except Exception\<close>, takes every exception the first three do not, the client's own
  included.
\<close>

definition handlers :: "client \<Rightarrow> string \<Rightarrow> response option \<Rightarrow> py_exc \<Rightarrow> raised" where
  "handlers c endpoint ropt e =
     (case e of
        LibExc cls m \<Rightarrow>
          (if is_Timeout cls then
             Nen (mk_exc NenDBTimeoutError
                    [Txt ''Request to '', Txt endpoint, Txt '' timed out after '',
                     Fmt (PInt (timeout c)), Txt '' seconds''] None)
           else if is_ConnectionError cls then
             Nen (mk_exc NenDBConnectionError
                    ([Txt ''Connection failed to '', Txt endpoint, Txt '': ''] @ m) None)
           else if is_HTTPError cls then http_error_handler endpoint m ropt
           else
             Nen (mk_exc NenDBError
                    ([Txt ''Unexpected error on '', Txt endpoint, Txt '': ''] @ m) None))
      | NenExc ne \<Rightarrow>
          Nen (mk_exc NenDBError
                 ([Txt ''Unexpected error on '', Txt endpoint, Txt '': ''] @ nen_str ne) None))"

definition make_request ::
  "client \<Rightarrow> string \<Rightarrow> string \<Rightarrow> (string \<times> pyval) list option \<Rightarrow>
   (string \<times> pyval) list option \<Rightarrow> (raised + pyval) \<times> client" where
  "make_request c meth endpoint data params =
     (let rq = \<lparr>req_method = meth, req_base = base_url c, req_endpoint = endpoint,
                req_json = data, req_params = params, req_timeout = timeout c\<rparr>;
          (out, s') = session_request (session c) rq;
          c' = c\<lparr>session := s'\<rparr>
      in case try_body out of
           (ropt, Inr v) \<Rightarrow> (Inr v, c')
         | (ropt, Inl e) \<Rightarrow> (Inl (handlers c endpoint ropt e), c'))"

text \<open>
  The operations. An argument is any Python value, since the checks test its type; a
  caller that omits an argument with a default passes the default (\<open>max_depth = 3\<close>,
  \<open>filters = None\<close>, \<open>weight_property = "weight"\<close>, \<open>iterations = 100\<close>,
  \<open>damping_factor = 0.85\<close>, \<open>tolerance = 1e-6\<close>). A validation error is raised
  before \<open>_make_request\<close> and leaves the client as it was.
\<close>

definition health :: "client \<Rightarrow> (raised + pyval) \<times> client" where
  "health c = make_request c ''GET'' ''/health'' None None"

definition graph_stats :: "client \<Rightarrow> (raised + pyval) \<times> client" where
  "graph_stats c = make_request c ''GET'' ''/graph/stats'' None None"

definition validation_error :: "string \<Rightarrow> raised" where
  "validation_error m = Nen (mk_exc NenDBValidationError [Txt m] None)"

definition bfs :: "client \<Rightarrow> pyval \<Rightarrow> pyval \<Rightarrow> pyval \<Rightarrow> (raised + pyval) \<times> client" where
  "bfs c start_node max_depth filters =
     (if \<not> isinstance_int start_node \<or> int_of start_node < 0 then
        (Inl (validation_error ''start_node must be a non-negative integer''), c)
      else if \<not> isinstance_int max_depth \<or> int_of max_depth < 1 then
        (Inl (validation_error ''max_depth must be a positive integer''), c)
      else
        (let data = [(''start_node'', start_node), (''max_depth'', max_depth)];
             data = (if truthy filters then data @ [(''filters'', filters)] else data)
         in make_request c ''POST'' ''/graph/algorithms/bfs'' (Some data) None))"

definition dijkstra :: "client \<Rightarrow> pyval \<Rightarrow> pyval \<Rightarrow> pyval \<Rightarrow> (raised + pyval) \<times> client" where
  "dijkstra c start_node end_node weight_property =
     (if \<not> isinstance_int start_node \<or> int_of start_node < 0 then
        (Inl (validation_error ''start_node must be a non-negative integer''), c)
      else if \<not> isinstance_int end_node \<or> int_of end_node < 0 then
        (Inl (validation_error ''end_node must be a non-negative integer''), c)
      else if \<not> isinstance_str weight_property then
        (Inl (validation_error ''weight_property must be a string''), c)
      else
        (let data = [(''start_node'', start_node), (''end_node'', end_node),
                     (''weight_property'', weight_property)]
         in make_request c ''POST'' ''/graph/algorithms/dijkstra'' (Some data) None))"

definition pagerank :: "client \<Rightarrow> pyval \<Rightarrow> pyval \<Rightarrow> pyval \<Rightarrow> (raised + pyval) \<times> client" where
  "pagerank c iterations damping_factor tolerance =
     (if \<not> isinstance_int iterations \<or> int_of iterations < 1 then
        (Inl (validation_error ''iterations must be a positive integer''), c)
      else if \<not> isinstance_float damping_factor \<or>
              \<not> (float_le (Fin 0) (float_of damping_factor) \<and>
                 float_le (float_of damping_factor) (Fin 1)) then
        (Inl (validation_error ''damping_factor must be between 0.0 and 1.0''), c)
      else if \<not> isinstance_float tolerance \<or> float_le (float_of tolerance) (Fin 0) then
        (Inl (validation_error ''tolerance must be a positive float''), c)
      else
        (let data = [(''iterations'', iterations), (''damping_factor'', damping_factor),
                     (''tolerance'', tolerance)]
         in make_request c ''POST'' ''/graph/algorithms/pagerank'' (Some data) None))"

definition close :: "client \<Rightarrow> client" where
  "close c =
     (if session_truthy (session c) then c\<lparr>session := session_close (session c)\<rparr> else c)"

text \<open>
  \<open>__init__\<close>. An omitted argument is \<open>None\<close> and takes the default of the signature.
  A session that is not passed is created, over the network \<open>net\<close> it will talk to.
  Without \<open>skip_validation\<close> the constructor probes \<open>health\<close> and turns whatever the
  probe raises into \<open>NenDBConnectionError\<close>.
\<close>

definition default_base_url :: string where
  "default_base_url = ''http://localhost:8080''"

definition default_timeout :: int where
  "default_timeout = 30"

definition default_retries :: int where
  "default_retries = 3"

definition init ::
  "network \<Rightarrow> string option \<Rightarrow> int option \<Rightarrow> int option \<Rightarrow>
   session option \<Rightarrow> bool \<Rightarrow> raised + client" where
  "init net base_url_arg timeout_arg retries_arg session_arg skip_validation =
     (let b = (case base_url_arg of Some u \<Rightarrow> u | None \<Rightarrow> default_base_url);
          t = (case timeout_arg of Some n \<Rightarrow> n | None \<Rightarrow> default_timeout);
          r = (case retries_arg of Some n \<Rightarrow> n | None \<Rightarrow> default_retries);
          s = (case session_arg of
                 Some s0 \<Rightarrow> if session_truthy s0 then s0 else create_session net r
               | None \<Rightarrow> create_session net r);
          c = \<lparr>base_url = rstrip b ''/'', timeout = t, retries = r, session = s\<rparr>
      in if \<not> skip_validation then
           (case health c of
              (Inl e, c') \<Rightarrow>
                Inl (Nen (mk_exc NenDBConnectionError
                            ([Txt ''Failed to connect to NenDB server at '', Txt (base_url c),
                              Txt '': ''] @ raised_str e) None))
            | (Inr v, c') \<Rightarrow> Inr c')
         else Inr c)"

section \<open>Operations\<close>

text \<open>
  The five operations of the client, as the command line dispatches them, with their
  arguments.
\<close>

datatype operation =
    Health
  | GraphStats
  | Bfs pyval pyval pyval
  | Dijkstra pyval pyval pyval
  | Pagerank pyval pyval pyval

fun run :: "client \<Rightarrow> operation \<Rightarrow> (raised + pyval) \<times> client" where
  "run c Health = health c"
| "run c GraphStats = graph_stats c"
| "run c (Bfs start_node max_depth filters) = bfs c start_node max_depth filters"
| "run c (Dijkstra start_node end_node weight_property) =
     dijkstra c start_node end_node weight_property"
| "run c (Pagerank iterations damping_factor tolerance) =
     pagerank c iterations damping_factor tolerance"

section \<open>Numeric comparison of arguments\<close>

text \<open>
  The constraints of the specification compare an argument with a bound as numbers,
  whatever its numeric type. Python compares an \<open>int\<close> with a \<open>float\<close> exactly, so
  the comparison is that of the values denoted. A value that is not a number compares
  with nothing.
\<close>

fun num_of :: "pyval \<Rightarrow> pyfloat option" where
  "num_of (PInt i) = Some (Fin (of_int i))"
| "num_of (PBool b) = Some (Fin (if b then 1 else 0))"
| "num_of (PFloat x) = Some x"
| "num_of v = None"

definition num_le :: "pyval \<Rightarrow> pyval \<Rightarrow> bool" where
  "num_le a b =
     (case (num_of a, num_of b) of (Some x, Some y) \<Rightarrow> float_le x y | _ \<Rightarrow> False)"

definition num_lt :: "pyval \<Rightarrow> pyval \<Rightarrow> bool" where
  "num_lt a b = (num_le a b \<and> num_of a \<noteq> num_of b)"

section \<open>Test fixtures\<close>

text \<open>
  The fixture of \<open>tests/test_client.py\<close>: a client built with \<open>skip_validation\<close>
  whose \<open>Session.request\<close> is patched to one fixed outcome.
\<close>

definition mock_session :: "outcome \<Rightarrow> session" where
  "mock_session out =
     \<lparr>behaviour = (\<lambda>past rq. out), calls = [], mounts = [], pools = [], disposed = []\<rparr>"

definition mock_client :: "outcome \<Rightarrow> client" where
  "mock_client out =
     \<lparr>base_url = ''http://localhost:8080'', timeout = 30, retries = 3,
      session = mock_session out\<rparr>"

definition ok_response :: response where
  "ok_response =
     \<lparr>status_code = 200, reason = ''OK'', resp_url = ''http://localhost:8080/'',
      resp_text = ''{status: success}'',
      resp_json = Inr (PDict [(''status'', PStr ''success'')])\<rparr>"

definition invalid_json_response :: response where
  "invalid_json_response =
     \<lparr>status_code = 200, reason = ''OK'', resp_url = ''http://localhost:8080/health'',
      resp_text = ''<html>'',
      resp_json = Inl [Txt ''Expecting value: line 1 column 1 (char 0)'']\<rparr>"

definition not_found_response :: response where
  "not_found_response =
     \<lparr>status_code = 404, reason = ''Not Found'', resp_url = ''http://localhost:8080/health'',
      resp_text = ''Not Found'',
      resp_json = Inl [Txt ''Expecting value: line 1 column 1 (char 0)'']\<rparr>"

definition status_600_response :: response where
  "status_600_response =
     \<lparr>status_code = 600, reason = ''Unknown'', resp_url = ''http://localhost:8080/health'',
      resp_text = ''{}'', resp_json = Inr (PDict [])\<rparr>"

text \<open>
  A network that does the same with every attempt of every request, and the client
  \<open>NenDBClient(skip_validation=True)\<close> builds over it: the defaults, and a session of
  its own.
\<close>

definition always :: "attempt \<Rightarrow> network" where
  "always a = (\<lambda>past rq k. a)"

definition service_unavailable_response :: response where
  "service_unavailable_response =
     \<lparr>status_code = 503, reason = ''Service Unavailable'',
      resp_url = ''http://localhost:8080/health'', resp_text = ''Service Unavailable'',
      resp_json = Inl [Txt ''Expecting value: line 1 column 1 (char 0)'']\<rparr>"

definition default_client :: "network \<Rightarrow> client" where
  "default_client net =
     \<lparr>base_url = ''http://localhost:8080'', timeout = 30, retries = 3,
      session = create_session net 3\<rparr>"

definition pooled_client :: client where
  "pooled_client =
     \<lparr>base_url = ''http://localhost:8080'', timeout = 30, retries = 3,
      session = (mock_session (Returned ok_response))\<lparr>pools := [1, 2]\<rparr>\<rparr>"

section \<open>Properties of the request layer\<close>

text \<open>Every \<open>_make_request\<close> invokes \<open>session.request\<close> once and leaves the
  configuration alone.\<close>

lemma make_request_calls:
  "calls (session (snd (make_request c meth endpoint data params))) =
     calls (session c) @
       [\<lparr>req_method = meth, req_base = base_url c, req_endpoint = endpoint,
         req_json = data, req_params = params, req_timeout = timeout c\<rparr>]"
  by (simp add: make_request_def session_request_def Let_def split: prod.splits sum.splits)

lemma make_request_config:
  "base_url (snd (make_request c meth endpoint data params)) = base_url c"
  "timeout (snd (make_request c meth endpoint data params)) = timeout c"
  "retries (snd (make_request c meth endpoint data params)) = retries c"
  by (simp_all add: make_request_def session_request_def Let_def split: prod.splits sum.splits)

lemma make_request_changes_client:
  "snd (make_request c meth endpoint data params) \<noteq> c"
proof
  assume "snd (make_request c meth endpoint data params) = c"
  then have "calls (session (snd (make_request c meth endpoint data params))) = calls (session c)"
    by simp
  then show False by (simp add: make_request_calls)
qed

text \<open>An operation either fails validation, leaving the client as it was, or is one
  \<open>_make_request\<close>.\<close>

lemma run_cases:
  "(\<exists>m. run c op = (Inl (validation_error m), c)) \<or>
   (\<exists>meth endpoint data. run c op = make_request c meth endpoint data None)"
proof (cases op)
  case Health
  then show ?thesis by (auto simp add: health_def)
next
  case GraphStats
  then show ?thesis by (auto simp add: graph_stats_def)
next
  case (Bfs a b f)
  then show ?thesis by (auto simp add: bfs_def Let_def)
next
  case (Dijkstra a b w)
  then show ?thesis by (auto simp add: dijkstra_def)
next
  case (Pagerank i d t)
  then show ?thesis by (auto simp add: pagerank_def)
qed

lemma run_dispatched:
  assumes "run c op = (res, c')" and "calls (session c') = calls (session c) @ [rq]"
  shows "\<exists>meth endpoint data.
           make_request c meth endpoint data None = (res, c') \<and>
           rq = \<lparr>req_method = meth, req_base = base_url c, req_endpoint = endpoint,
                 req_json = data, req_params = None, req_timeout = timeout c\<rparr>"
proof -
  from run_cases [of c op] show ?thesis
  proof
    assume "\<exists>m. run c op = (Inl (validation_error m), c)"
    with assms show ?thesis by auto
  next
    assume "\<exists>meth endpoint data. run c op = make_request c meth endpoint data None"
    then obtain meth endpoint data
      where r: "run c op = make_request c meth endpoint data None" by blast
    with assms(1) have m: "make_request c meth endpoint data None = (res, c')" by simp
    have "calls (session (snd (make_request c meth endpoint data None))) =
            calls (session c) @
              [\<lparr>req_method = meth, req_base = base_url c, req_endpoint = endpoint,
                req_json = data, req_params = None, req_timeout = timeout c\<rparr>]"
      by (rule make_request_calls)
    with m assms(2) show ?thesis by auto
  qed
qed

lemma make_request_http_error:
  assumes "behaviour (session c) (calls (session c))
             \<lparr>req_method = meth, req_base = base_url c, req_endpoint = endpoint,
              req_json = data, req_params = params, req_timeout = timeout c\<rparr> = Returned r"
      and "400 \<le> status_code r" and "status_code r < 600"
  shows "\<exists>e. fst (make_request c meth endpoint data params) = Inl (Nen e) \<and>
             kind e = NenDBResponseError \<and>
             map_of (details e) ''status_code'' = Some (PInt (status_code r))"
  using assms
  by (auto simp add: make_request_def session_request_def try_body_def handlers_def
        http_error_handler_def raise_for_status_def mk_exc_def
        split: sum.splits pyval.splits)

lemma make_request_transport_exception:
  assumes "behaviour (session c) (calls (session c))
             \<lparr>req_method = meth, req_base = base_url c, req_endpoint = endpoint,
              req_json = data, req_params = params, req_timeout = timeout c\<rparr> = Raised cls m"
  shows "is_Timeout cls \<Longrightarrow>
           \<exists>e. fst (make_request c meth endpoint data params) = Inl (Nen e) \<and>
               kind e = NenDBTimeoutError"
    and "\<not> is_Timeout cls \<Longrightarrow> is_ConnectionError cls \<Longrightarrow>
           \<exists>e. fst (make_request c meth endpoint data params) = Inl (Nen e) \<and>
               kind e = NenDBConnectionError"
  using assms
  by (simp_all add: make_request_def session_request_def try_body_def handlers_def mk_exc_def)

text \<open>
  A body that does not decode on a status below 400: the \<open>NenDBResponseError\<close> of the
  inner handler is raised inside the outer \<open>try\<close>, whose \<open>except Exception\<close> clause
  replaces it by a plain \<open>NenDBError\<close> with no details.
\<close>

lemma make_request_invalid_json:
  assumes "behaviour (session c) (calls (session c))
             \<lparr>req_method = meth, req_base = base_url c, req_endpoint = endpoint,
              req_json = data, req_params = params, req_timeout = timeout c\<rparr> = Returned r"
      and "status_code r < 400" and "resp_json r = Inl m"
  shows "\<exists>e. fst (make_request c meth endpoint data params) = Inl (Nen e) \<and>
             kind e = NenDBError \<and> details e = []"
  using assms
  by (simp add: make_request_def session_request_def try_body_def handlers_def
        raise_for_status_def mk_exc_def)

section \<open>Validation before dispatch\<close>

text \<open>
  Claim C1. For every integer \<open>start_node\<close> below zero, \<open>bfs\<close> and \<open>dijkstra\<close> raise
  \<open>NenDBValidationError\<close> and return the client as it was: the log of \<open>session.request\<close>
  has not grown, and the result is not that of any \<open>_make_request\<close>, which always
  changes the client.
\<close>

theorem negative_start_node_rejected:
  assumes "i < 0"
  shows "(\<exists>e. bfs c (PInt i) max_depth filters = (Inl (Nen e), c) \<and> kind e = NenDBValidationError)
       \<and> (\<exists>e. dijkstra c (PInt i) end_node weight_property = (Inl (Nen e), c)
              \<and> kind e = NenDBValidationError)
       \<and> calls (session (snd (bfs c (PInt i) max_depth filters))) = calls (session c)
       \<and> calls (session (snd (dijkstra c (PInt i) end_node weight_property))) = calls (session c)
       \<and> (\<forall>meth endpoint data params.
             bfs c (PInt i) max_depth filters \<noteq> make_request c meth endpoint data params
           \<and> dijkstra c (PInt i) end_node weight_property \<noteq>
               make_request c meth endpoint data params)"
proof -
  have b: "bfs c (PInt i) max_depth filters =
             (Inl (validation_error ''start_node must be a non-negative integer''), c)"
    using assms by (simp add: bfs_def)
  have d: "dijkstra c (PInt i) end_node weight_property =
             (Inl (validation_error ''start_node must be a non-negative integer''), c)"
    using assms by (simp add: dijkstra_def)
  have n: "(Inl (validation_error m), c) \<noteq> make_request c meth endpoint data params"
    for m meth endpoint data params
    using make_request_changes_client [of c meth endpoint data params]
    by (metis snd_conv)
  show ?thesis
    unfolding b d using n by (simp add: validation_error_def mk_exc_def)
qed

theorem negative_start_node_rejected_witness:
  "(\<exists>e. bfs (mock_client (Returned ok_response)) (PInt (- 1)) (PInt 3) PNone =
          (Inl (Nen e), mock_client (Returned ok_response)) \<and>
        kind e = NenDBValidationError)
   \<and> (\<exists>e. dijkstra (mock_client (Returned ok_response)) (PInt (- 1)) (PInt 5)
            (PStr ''weight'') =
          (Inl (Nen e), mock_client (Returned ok_response)) \<and>
        kind e = NenDBValidationError)
   \<and> calls (session (snd (bfs (mock_client (Returned ok_response)) (PInt (- 1)) (PInt 3)
                             PNone))) = []"
proof -
  have h: "(- 1 :: int) < 0" by simp
  have e: "calls (session (mock_client (Returned ok_response))) = []"
    by (simp add: mock_client_def mock_session_def)
  from negative_start_node_rejected
         [OF h, where c = "mock_client (Returned ok_response)" and max_depth = "PInt 3"
            and filters = PNone and end_node = "PInt 5" and weight_property = "PStr ''weight''"]
       e
  show ?thesis by simp
qed

text \<open>\<open>pagerank\<close> raises \<open>NenDBValidationError\<close>, or all of its checks hold.\<close>

lemma pagerank_passes_iff:
  "(\<exists>e. pagerank c iterations damping_factor tolerance = (Inl (Nen e), c) \<and>
        kind e = NenDBValidationError) \<or>
   (isinstance_int iterations \<and> 1 \<le> int_of iterations \<and>
    isinstance_float damping_factor \<and> float_le (Fin 0) (float_of damping_factor) \<and>
    float_le (float_of damping_factor) (Fin 1) \<and>
    isinstance_float tolerance \<and> \<not> float_le (float_of tolerance) (Fin 0))"
  by (auto simp add: pagerank_def validation_error_def mk_exc_def)

text \<open>
  Claim C3. A \<open>pagerank\<close> call whose damping factor is not within \<open>[0.0, 1.0]\<close>, or whose
  iteration count is below 1, or whose tolerance is at most \<open>0.0\<close>, raises
  \<open>NenDBValidationError\<close> with the client unchanged, so that no request has been made.
\<close>

theorem pagerank_out_of_range_rejected:
  assumes "\<not> (num_le (PFloat (Fin 0)) damping_factor \<and> num_le damping_factor (PFloat (Fin 1)))
         \<or> num_lt iterations (PInt 1)
         \<or> num_le tolerance (PFloat (Fin 0))"
  shows "(\<exists>e. pagerank c iterations damping_factor tolerance = (Inl (Nen e), c) \<and>
              kind e = NenDBValidationError)
       \<and> calls (session (snd (pagerank c iterations damping_factor tolerance))) =
           calls (session c)"
proof -
  have "\<not> (isinstance_int iterations \<and> 1 \<le> int_of iterations \<and>
    isinstance_float damping_factor \<and> float_le (Fin 0) (float_of damping_factor) \<and>
    float_le (float_of damping_factor) (Fin 1) \<and>
    isinstance_float tolerance \<and> \<not> float_le (float_of tolerance) (Fin 0))"
    using assms
    by (cases iterations; cases damping_factor; cases tolerance)
       (auto simp add: num_le_def num_lt_def split: if_splits)
  with pagerank_passes_iff [of c iterations damping_factor tolerance]
  show ?thesis by auto
qed

theorem pagerank_out_of_range_rejected_witness:
  "(\<exists>e. pagerank (mock_client (Returned ok_response)) (PInt 100) (PFloat (Fin (3/2)))
          (PFloat (Fin (1/1000000))) =
          (Inl (Nen e), mock_client (Returned ok_response)) \<and>
        kind e = NenDBValidationError)
   \<and> (\<exists>e. pagerank (mock_client (Returned ok_response)) (PInt 0) (PFloat (Fin (85/100)))
          (PFloat (Fin (1/1000000))) =
          (Inl (Nen e), mock_client (Returned ok_response)) \<and>
        kind e = NenDBValidationError)
   \<and> (\<exists>e. pagerank (mock_client (Returned ok_response)) (PInt 100) (PFloat (Fin (85/100)))
          (PFloat (Fin 0)) =
          (Inl (Nen e), mock_client (Returned ok_response)) \<and>
        kind e = NenDBValidationError)
   \<and> (\<exists>e. pagerank (mock_client (Returned ok_response)) (PInt 100) (PFloat NaN)
          (PFloat (Fin (1/1000000))) =
          (Inl (Nen e), mock_client (Returned ok_response)) \<and>
        kind e = NenDBValidationError)"
proof -
  have a: "\<not> (num_le (PFloat (Fin 0)) (PFloat (Fin (3/2))) \<and>
              num_le (PFloat (Fin (3/2))) (PFloat (Fin 1)))"
    by (simp add: num_le_def)
  have b: "num_lt (PInt 0) (PInt 1)"
    by (simp add: num_lt_def num_le_def)
  have d: "num_le (PFloat (Fin 0)) (PFloat (Fin 0))"
    by (simp add: num_le_def)
  have n: "\<not> (num_le (PFloat (Fin 0)) (PFloat NaN) \<and> num_le (PFloat NaN) (PFloat (Fin 1)))"
    by (simp add: num_le_def)
  show ?thesis
    using pagerank_out_of_range_rejected
            [where damping_factor = "PFloat (Fin (3/2))" and iterations = "PInt 100"
               and tolerance = "PFloat (Fin (1/1000000))"
               and c = "mock_client (Returned ok_response)"]
          pagerank_out_of_range_rejected
            [where damping_factor = "PFloat (Fin (85/100))" and iterations = "PInt 0"
               and tolerance = "PFloat (Fin (1/1000000))"
               and c = "mock_client (Returned ok_response)"]
          pagerank_out_of_range_rejected
            [where damping_factor = "PFloat (Fin (85/100))" and iterations = "PInt 100"
               and tolerance = "PFloat (Fin 0)"
               and c = "mock_client (Returned ok_response)"]
          pagerank_out_of_range_rejected
            [where damping_factor = "PFloat NaN" and iterations = "PInt 100"
               and tolerance = "PFloat (Fin (1/1000000))"
               and c = "mock_client (Returned ok_response)"]
          a b d n
    by blast
qed

text \<open>
  Claim C9. A \<open>pagerank\<close> call whose damping factor is an \<open>int\<close> raises
  \<open>NenDBValidationError\<close>, whatever the integer, and so does one whose tolerance is an
  \<open>int\<close>. With the other arguments valid, the integer 1 is rejected as damping factor
  where the float \<open>1.0\<close> is dispatched, and the integer 1 is rejected as tolerance.
\<close>

theorem pagerank_requires_float_type:
  "(\<exists>e. pagerank c iterations (PInt i) tolerance = (Inl (Nen e), c) \<and>
         kind e = NenDBValidationError)
   \<and> (\<exists>e. pagerank c iterations damping_factor (PInt j) = (Inl (Nen e), c) \<and>
         kind e = NenDBValidationError)
   \<and> pagerank c (PInt 100) (PInt 1) (PFloat (Fin (1/1000000))) =
       (Inl (validation_error ''damping_factor must be between 0.0 and 1.0''), c)
   \<and> pagerank c (PInt 100) (PFloat (Fin 1)) (PFloat (Fin (1/1000000))) =
       make_request c ''POST'' ''/graph/algorithms/pagerank''
         (Some [(''iterations'', PInt 100), (''damping_factor'', PFloat (Fin 1)),
                (''tolerance'', PFloat (Fin (1/1000000)))]) None
   \<and> pagerank c (PInt 100) (PFloat (Fin (85/100))) (PInt 1) =
       (Inl (validation_error ''tolerance must be a positive float''), c)"
proof -
  have 1: "\<exists>e. pagerank c iterations (PInt i) tolerance = (Inl (Nen e), c) \<and>
         kind e = NenDBValidationError"
    using pagerank_passes_iff [of c iterations "PInt i" tolerance] by simp
  have 2: "\<exists>e. pagerank c iterations damping_factor (PInt j) = (Inl (Nen e), c) \<and>
         kind e = NenDBValidationError"
    using pagerank_passes_iff [of c iterations damping_factor "PInt j"] by simp
  have 3: "pagerank c (PInt 100) (PInt 1) (PFloat (Fin (1/1000000))) =
       (Inl (validation_error ''damping_factor must be between 0.0 and 1.0''), c)"
    by (simp add: pagerank_def)
  have 4: "pagerank c (PInt 100) (PFloat (Fin 1)) (PFloat (Fin (1/1000000))) =
       make_request c ''POST'' ''/graph/algorithms/pagerank''
         (Some [(''iterations'', PInt 100), (''damping_factor'', PFloat (Fin 1)),
                (''tolerance'', PFloat (Fin (1/1000000)))]) None"
    by (simp add: pagerank_def)
  have 5: "pagerank c (PInt 100) (PFloat (Fin (85/100))) (PInt 1) =
       (Inl (validation_error ''tolerance must be a positive float''), c)"
    by (simp add: pagerank_def)
  from 1 2 3 4 5 show ?thesis by blast
qed

theorem pagerank_requires_float_type_witness:
  "(\<exists>e. pagerank (mock_client (Returned ok_response)) (PInt 100) (PInt 0)
          (PFloat (Fin (1/1000000))) =
          (Inl (Nen e), mock_client (Returned ok_response)) \<and>
        kind e = NenDBValidationError)
   \<and> (\<exists>e. pagerank (mock_client (Returned ok_response)) (PInt 100) (PFloat (Fin (85/100)))
          (PInt 1) =
          (Inl (Nen e), mock_client (Returned ok_response)) \<and>
        kind e = NenDBValidationError)"
  using pagerank_requires_float_type
          [where c = "mock_client (Returned ok_response)" and iterations = "PInt 100"
             and i = 0 and tolerance = "PFloat (Fin (1/1000000))"
             and damping_factor = "PFloat (Fin (85/100))" and j = 1]
  by blast

text \<open>
  Claim C4, as the specification states it, fails: an empty \<open>weight_property\<close> is a
  string, passes the check and is dispatched.
\<close>

theorem dijkstra_empty_weight_property_dispatched:
  "fst (dijkstra (mock_client (Returned ok_response)) (PInt 0) (PInt 5) (PStr [])) =
     Inr (PDict [(''status'', PStr ''success'')])
   \<and> calls (session (snd (dijkstra (mock_client (Returned ok_response)) (PInt 0) (PInt 5)
                             (PStr [])))) =
       [\<lparr>req_method = ''POST'', req_base = ''http://localhost:8080'',
         req_endpoint = ''/graph/algorithms/dijkstra'',
         req_json = Some [(''start_node'', PInt 0), (''end_node'', PInt 5),
                          (''weight_property'', PStr [])],
         req_params = None, req_timeout = 30\<rparr>]"
  by (simp add: dijkstra_def make_request_def session_request_def try_body_def
        raise_for_status_def mock_client_def mock_session_def ok_response_def)

text \<open>
  Claim C4, amended. With valid node identifiers, \<open>dijkstra\<close> raises
  \<open>NenDBValidationError\<close> with the client unchanged when \<open>weight_property\<close> is not a
  string, and dispatches the request for every string, the empty one included.
\<close>

theorem dijkstra_weight_property_type_checked:
  assumes "isinstance_int start_node" and "0 \<le> int_of start_node"
      and "isinstance_int end_node" and "0 \<le> int_of end_node"
  shows "(\<not> isinstance_str weight_property \<longrightarrow>
            dijkstra c start_node end_node weight_property =
              (Inl (validation_error ''weight_property must be a string''), c))
       \<and> (isinstance_str weight_property \<longrightarrow>
            dijkstra c start_node end_node weight_property =
              make_request c ''POST'' ''/graph/algorithms/dijkstra''
                (Some [(''start_node'', start_node), (''end_node'', end_node),
                       (''weight_property'', weight_property)]) None)"
  using assms by (simp add: dijkstra_def)

theorem dijkstra_weight_property_type_checked_witness:
  "dijkstra (mock_client (Returned ok_response)) (PInt 0) (PInt 5) (PInt 7) =
     (Inl (validation_error ''weight_property must be a string''),
      mock_client (Returned ok_response))
   \<and> dijkstra (mock_client (Returned ok_response)) (PInt 0) (PInt 5) (PStr ''weight'') =
       make_request (mock_client (Returned ok_response)) ''POST'' ''/graph/algorithms/dijkstra''
         (Some [(''start_node'', PInt 0), (''end_node'', PInt 5),
                (''weight_property'', PStr ''weight'')]) None"
  using dijkstra_weight_property_type_checked
          [where start_node = "PInt 0" and end_node = "PInt 5" and weight_property = "PInt 7"
             and c = "mock_client (Returned ok_response)"]
        dijkstra_weight_property_type_checked
          [where start_node = "PInt 0" and end_node = "PInt 5"
             and weight_property = "PStr ''weight''"
             and c = "mock_client (Returned ok_response)"]
  by simp

section \<open>Interpreting the outcome of a request\<close>

text \<open>
  Claim C2, at the input of \<open>test_invalid_json_response\<close>: status 200 and a body that
  does not decode. \<open>health\<close> raises the base \<open>NenDBError\<close>; its details are empty, and
  the status code and the response text survive only inside the message.
\<close>

theorem invalid_json_degraded_to_generic_error:
  "fst (health (mock_client (Returned invalid_json_response))) =
     Inl (Nen \<lparr>kind = NenDBError,
               message = [Txt ''Unexpected error on '', Txt ''/health'', Txt '': '',
                          Txt ''Invalid JSON response from server: '',
                          Txt ''Expecting value: line 1 column 1 (char 0)'',
                          Txt '' - Details: '',
                          Fmt (PDict [(''status_code'', PInt 200),
                                      (''response_text'', PStr ''<html>'')])],
               details = []\<rparr>)"
  by (simp add: health_def make_request_def session_request_def try_body_def handlers_def
        raise_for_status_def mk_exc_def nen_str_def mock_client_def mock_session_def
        invalid_json_response_def)

text \<open>
  A response that reaches the client with a status of 400 to 599 makes every operation
  raise \<open>NenDBResponseError\<close>, with the status code in its details under
  \<open>status_code\<close>. This is the path of \<open>test_error_handling\<close>, where
  \<open>Session.request\<close> is patched to return the response.
\<close>

lemma returned_error_status_classified:
  assumes "run c op = (res, c')"
      and "calls (session c') = calls (session c) @ [rq]"
      and "behaviour (session c) (calls (session c)) rq = Returned r"
      and "400 \<le> status_code r" and "status_code r < 600"
  shows "\<exists>e. res = Inl (Nen e) \<and> kind e = NenDBResponseError \<and>
             map_of (details e) ''status_code'' = Some (PInt (status_code r))"
proof -
  from run_dispatched [OF assms(1,2)] obtain meth endpoint data
    where m: "make_request c meth endpoint data None = (res, c')"
      and rq: "rq = \<lparr>req_method = meth, req_base = base_url c, req_endpoint = endpoint,
                      req_json = data, req_params = None, req_timeout = timeout c\<rparr>"
    by blast
  from make_request_http_error [of c meth endpoint data None r] assms(3,4,5) rq m
  show ?thesis by simp
qed

text \<open>
  \<open>raise_for_status\<close> does not raise for a status of 600 or more: such a response is
  returned as a success.
\<close>

lemma status_600_returned_as_success:
  "fst (run (mock_client (Returned status_600_response)) Health) = Inr (PDict [])"
  by (simp add: health_def make_request_def session_request_def try_body_def
        raise_for_status_def mock_client_def mock_session_def status_600_response_def)

text \<open>
  An exception of \<open>requests\<close> that reaches the client is classified by the order of
  the clauses: an instance of \<open>Timeout\<close> gives \<open>NenDBTimeoutError\<close>, also when it is
  an instance of \<open>ConnectionError\<close> as well (\<open>ConnectTimeout\<close>); a \<open>ConnectionError\<close>
  that is no \<open>Timeout\<close> gives \<open>NenDBConnectionError\<close>. This is the path of
  \<open>test_connection_timeout\<close>, where \<open>Session.request\<close> is patched to raise.
\<close>

lemma raised_exception_classified:
  assumes "run c op = (res, c')"
      and "calls (session c') = calls (session c) @ [rq]"
      and "behaviour (session c) (calls (session c)) rq = Raised cls m"
  shows "(is_Timeout cls \<longrightarrow>
            (\<exists>e. res = Inl (Nen e) \<and> kind e = NenDBTimeoutError))
       \<and> (\<not> is_Timeout cls \<and> is_ConnectionError cls \<longrightarrow>
            (\<exists>e. res = Inl (Nen e) \<and> kind e = NenDBConnectionError))"
proof -
  from run_dispatched [OF assms(1,2)] obtain meth endpoint data
    where m: "make_request c meth endpoint data None = (res, c')"
      and rq: "rq = \<lparr>req_method = meth, req_base = base_url c, req_endpoint = endpoint,
                      req_json = data, req_params = None, req_timeout = timeout c\<rparr>"
    by blast
  from assms(3) rq
  have b: "behaviour (session c) (calls (session c))
             \<lparr>req_method = meth, req_base = base_url c, req_endpoint = endpoint,
              req_json = data, req_params = None, req_timeout = timeout c\<rparr> = Raised cls m"
    by simp
  from make_request_transport_exception [OF b] m show ?thesis by auto
qed

text \<open>
  An exception that is neither (\<open>RetryError\<close> among them) falls to the last clause and
  becomes a plain \<open>NenDBError\<close> without details.
\<close>

lemma make_request_retry_error:
  assumes "behaviour (session c) (calls (session c))
             \<lparr>req_method = meth, req_base = base_url c, req_endpoint = endpoint,
              req_json = data, req_params = params, req_timeout = timeout c\<rparr> =
             Raised RetryError m"
  shows "\<exists>e. fst (make_request c meth endpoint data params) = Inl (Nen e) \<and>
             kind e = NenDBError \<and> details e = []"
  using assms
  by (simp add: make_request_def session_request_def try_body_def handlers_def mk_exc_def)

section \<open>The session the client creates\<close>

text \<open>
  What the mounted adapter makes of a network, for every number of retries. An answer
  that is not retried is returned; answers that are all retried end in \<open>RetryError\<close>,
  read timeouts of an allowed method in \<open>ConnectionError\<close>, connect timeouts in
  \<open>ConnectTimeout\<close>.
\<close>

lemma urlopen_not_retried:
  assumes "srv k = Answered r" and "\<not> is_retry rt meth (status_code r)"
  shows "urlopen rt meth srv k = Returned r"
  using assms by (simp add: urlopen.simps)

lemma urlopen_retried_statuses:
  assumes "meth \<in> set (allowed_methods rt)"
      and "\<forall>j. \<exists>r. srv j = Answered r \<and> status_code r \<in> set (status_forcelist rt)"
  shows "\<exists>m. urlopen rt meth srv k = Raised RetryError m"
  using assms
proof (induction rt meth srv k rule: urlopen.induct)
  case (1 rt meth srv k)
  from "1.prems"(2) obtain r
    where r: "srv k = Answered r" "status_code r \<in> set (status_forcelist rt)" by blast
  with "1.prems"(1) have retry: "is_retry rt meth (status_code r)"
    by (simp add: is_retry_def is_method_retryable_def)
  show ?case
  proof (cases "is_exhausted (increment rt)")
    case True
    with r retry show ?thesis by (simp add: urlopen.simps)
  next
    case False
    have m': "meth \<in> set (allowed_methods (increment rt))"
      using "1.prems"(1) by (simp add: increment_def)
    have s': "\<forall>j. \<exists>r. srv j = Answered r \<and>
                 status_code r \<in> set (status_forcelist (increment rt))"
      using "1.prems"(2) by (simp add: increment_def)
    have "\<exists>m. urlopen (increment rt) meth srv (Suc k) = Raised RetryError m"
      by (rule "1.IH"(1) [OF r(1) retry False m' s'])
    with r retry False show ?thesis by (simp add: urlopen.simps [of rt])
  qed
qed

lemma urlopen_read_timeouts:
  assumes "meth \<in> set (allowed_methods rt)" and "\<forall>j. srv j = ReadTimedOut"
  shows "\<exists>m. urlopen rt meth srv k = Raised ConnectionError m"
  using assms
proof (induction rt meth srv k rule: urlopen.induct)
  case (1 rt meth srv k)
  from "1.prems" have r: "srv k = ReadTimedOut" and a: "\<not> \<not> is_method_retryable rt meth"
    by (simp_all add: is_method_retryable_def)
  show ?case
  proof (cases "is_exhausted (increment rt)")
    case True
    with r a show ?thesis by (simp add: urlopen.simps)
  next
    case False
    have m': "meth \<in> set (allowed_methods (increment rt))"
      using "1.prems"(1) by (simp add: increment_def)
    have "\<exists>m. urlopen (increment rt) meth srv (Suc k) = Raised ConnectionError m"
      by (rule "1.IH"(3) [OF r a False m' "1.prems"(2)])
    with r a False show ?thesis by (simp add: urlopen.simps [of rt])
  qed
qed

lemma urlopen_connect_timeouts:
  assumes "\<forall>j. srv j = ConnectTimedOut"
  shows "\<exists>m. urlopen rt meth srv k = Raised ConnectTimeout m"
  using assms
proof (induction rt meth srv k rule: urlopen.induct)
  case (1 rt meth srv k)
  from "1.prems" have r: "srv k = ConnectTimedOut" by simp
  show ?case
  proof (cases "is_exhausted (increment rt)")
    case True
    with r show ?thesis by (simp add: urlopen.simps)
  next
    case False
    have "\<exists>m. urlopen (increment rt) meth srv (Suc k) = Raised ConnectTimeout m"
      by (rule "1.IH"(2) [OF r False "1.prems"])
    with r False show ?thesis by (simp add: urlopen.simps [of rt])
  qed
qed

text \<open>
  The operations on a client with a session of its own, whatever its number of retries
  and whatever was requested before. A status of the force list on every attempt ends
  in a plain \<open>NenDBError\<close> without details; a status from 400 to 599 that is not on the
  list ends in \<open>NenDBResponseError\<close> with its \<open>status_code\<close>. A read timeout on every
  attempt ends in \<open>NenDBConnectionError\<close>, a connect timeout in \<open>NenDBTimeoutError\<close>.
\<close>

lemma own_session_behaviour:
  assumes "behaviour (session c) = behaviour (create_session net n)"
  shows "behaviour (session c) past rq =
           urlopen \<lparr>total = n, status_forcelist = [429, 500, 502, 503, 504],
                     allowed_methods = [''HEAD'', ''GET'', ''OPTIONS'', ''POST''],
                     backoff_factor = 1\<rparr> (req_method rq) (net past rq) 0"
  using assms by (simp add: create_session_def Let_def)

lemma own_session_retried_status:
  assumes "behaviour (session c) = behaviour (create_session (always (Answered r)) n)"
      and "status_code r \<in> set [429, 500, 502, 503, 504]"
      and "meth \<in> set [''HEAD'', ''GET'', ''OPTIONS'', ''POST'']"
  shows "\<exists>e. fst (make_request c meth endpoint data params) = Inl (Nen e) \<and>
             kind e = NenDBError \<and> details e = []"
proof -
  let ?rt = "\<lparr>total = n, status_forcelist = [429, 500, 502, 503, 504],
              allowed_methods = [''HEAD'', ''GET'', ''OPTIONS'', ''POST''],
              backoff_factor = 1\<rparr>"
  let ?rq = "\<lparr>req_method = meth, req_base = base_url c, req_endpoint = endpoint,
              req_json = data, req_params = params, req_timeout = timeout c\<rparr>"
  have m: "meth \<in> set (allowed_methods ?rt)" using assms(3) by simp
  have s: "\<forall>j. \<exists>r'. always (Answered r) (calls (session c)) ?rq j = Answered r' \<and>
                status_code r' \<in> set (status_forcelist ?rt)"
    using assms(2) by (simp add: always_def)
  from urlopen_retried_statuses [OF m s, of 0] obtain msg
    where "urlopen ?rt meth (always (Answered r) (calls (session c)) ?rq) 0 =
             Raised RetryError msg" by blast
  then have "behaviour (session c) (calls (session c)) ?rq = Raised RetryError msg"
    by (simp add: own_session_behaviour [OF assms(1)])
  then show ?thesis by (rule make_request_retry_error)
qed

lemma own_session_error_status:
  assumes "behaviour (session c) = behaviour (create_session (always (Answered r)) n)"
      and "400 \<le> status_code r" and "status_code r < 600"
      and "status_code r \<notin> set [429, 500, 502, 503, 504]"
  shows "\<exists>e. fst (make_request c meth endpoint data params) = Inl (Nen e) \<and>
             kind e = NenDBResponseError \<and>
             map_of (details e) ''status_code'' = Some (PInt (status_code r))"
proof -
  let ?rt = "\<lparr>total = n, status_forcelist = [429, 500, 502, 503, 504],
              allowed_methods = [''HEAD'', ''GET'', ''OPTIONS'', ''POST''],
              backoff_factor = 1\<rparr>"
  let ?rq = "\<lparr>req_method = meth, req_base = base_url c, req_endpoint = endpoint,
              req_json = data, req_params = params, req_timeout = timeout c\<rparr>"
  have a: "always (Answered r) (calls (session c)) ?rq 0 = Answered r"
    by (simp add: always_def)
  have n: "\<not> is_retry ?rt meth (status_code r)"
    using assms(4) by (simp add: is_retry_def)
  from urlopen_not_retried
         [where srv = "always (Answered r) (calls (session c)) ?rq" and k = 0, OF a n]
  have "behaviour (session c) (calls (session c)) ?rq = Returned r"
    by (simp add: own_session_behaviour [OF assms(1)])
  then show ?thesis using assms(2,3) by (rule make_request_http_error)
qed

lemma own_session_read_timeout:
  assumes "behaviour (session c) = behaviour (create_session (always ReadTimedOut) n)"
      and "meth \<in> set [''HEAD'', ''GET'', ''OPTIONS'', ''POST'']"
  shows "\<exists>e. fst (make_request c meth endpoint data params) = Inl (Nen e) \<and>
             kind e = NenDBConnectionError"
proof -
  let ?rt = "\<lparr>total = n, status_forcelist = [429, 500, 502, 503, 504],
              allowed_methods = [''HEAD'', ''GET'', ''OPTIONS'', ''POST''],
              backoff_factor = 1\<rparr>"
  let ?rq = "\<lparr>req_method = meth, req_base = base_url c, req_endpoint = endpoint,
              req_json = data, req_params = params, req_timeout = timeout c\<rparr>"
  have m: "meth \<in> set (allowed_methods ?rt)" using assms(2) by simp
  have s: "\<forall>j. always ReadTimedOut (calls (session c)) ?rq j = ReadTimedOut"
    by (simp add: always_def)
  from urlopen_read_timeouts [OF m s, of 0] obtain msg
    where "urlopen ?rt meth (always ReadTimedOut (calls (session c)) ?rq) 0 =
             Raised ConnectionError msg" by blast
  then have b: "behaviour (session c) (calls (session c)) ?rq = Raised ConnectionError msg"
    by (simp add: own_session_behaviour [OF assms(1)])
  show ?thesis by (rule make_request_transport_exception(2) [OF b]) simp_all
qed

lemma own_session_connect_timeout:
  assumes "behaviour (session c) = behaviour (create_session (always ConnectTimedOut) n)"
  shows "\<exists>e. fst (make_request c meth endpoint data params) = Inl (Nen e) \<and>
             kind e = NenDBTimeoutError"
proof -
  let ?rt = "\<lparr>total = n, status_forcelist = [429, 500, 502, 503, 504],
              allowed_methods = [''HEAD'', ''GET'', ''OPTIONS'', ''POST''],
              backoff_factor = 1\<rparr>"
  let ?rq = "\<lparr>req_method = meth, req_base = base_url c, req_endpoint = endpoint,
              req_json = data, req_params = params, req_timeout = timeout c\<rparr>"
  have s: "\<forall>j. always ConnectTimedOut (calls (session c)) ?rq j = ConnectTimedOut"
    by (simp add: always_def)
  from urlopen_connect_timeouts [OF s, of ?rt meth 0] obtain msg
    where "urlopen ?rt meth (always ConnectTimedOut (calls (session c)) ?rq) 0 =
             Raised ConnectTimeout msg" by blast
  then have b: "behaviour (session c) (calls (session c)) ?rq = Raised ConnectTimeout msg"
    by (simp add: own_session_behaviour [OF assms(1)])
  show ?thesis by (rule make_request_transport_exception(1) [OF b]) simp
qed

lemma init_default_client: "init net None None None None True = Inr (default_client net)"
  by (simp add: init_def Let_def default_client_def default_base_url_def default_timeout_def
        default_retries_def rstrip_def)

text \<open>
  Claim C5, at \<open>NenDBClient(skip_validation=True).health()\<close> against a server that
  answers 503 to every attempt. The retries are exhausted, the session raises
  \<open>RetryError\<close> and \<open>health\<close> raises the base \<open>NenDBError\<close> with empty details, where
  the claim has \<open>NenDBResponseError\<close> with the status code. Against a server that
  answers 404 the same call raises \<open>NenDBResponseError\<close> with \<open>status_code\<close> 404.
\<close>

theorem retried_status_degraded_to_generic_error:
  "init (always (Answered service_unavailable_response)) None None None None True =
     Inr (default_client (always (Answered service_unavailable_response)))
   \<and> (\<exists>e. fst (health (default_client (always (Answered service_unavailable_response)))) =
            Inl (Nen e) \<and>
          kind e = NenDBError \<and> details e = [])
   \<and> (\<exists>e. fst (health (default_client (always (Answered not_found_response)))) =
            Inl (Nen e) \<and>
          kind e = NenDBResponseError \<and>
          map_of (details e) ''status_code'' = Some (PInt 404))"
proof -
  have b: "behaviour (session (default_client net)) = behaviour (create_session net 3)" for net
    by (simp add: default_client_def)
  have 1: "\<exists>e. fst (health (default_client (always (Answered service_unavailable_response)))) =
            Inl (Nen e) \<and> kind e = NenDBError \<and> details e = []"
    unfolding health_def
    by (rule own_session_retried_status [OF b])
       (simp_all add: service_unavailable_response_def)
  have "\<exists>e. fst (health (default_client (always (Answered not_found_response)))) =
            Inl (Nen e) \<and> kind e = NenDBResponseError \<and>
          map_of (details e) ''status_code'' = Some (PInt (status_code not_found_response))"
    unfolding health_def
    by (rule own_session_error_status [OF b]) (simp_all add: not_found_response_def)
  then have 2: "\<exists>e. fst (health (default_client (always (Answered not_found_response)))) =
            Inl (Nen e) \<and> kind e = NenDBResponseError \<and>
          map_of (details e) ''status_code'' = Some (PInt 404)"
    by (simp add: not_found_response_def)
  from init_default_client 1 2 show ?thesis by blast
qed

text \<open>
  Claim C6, at \<open>NenDBClient(skip_validation=True).health()\<close> against a server that
  accepts the connection and does not answer in time, on any attempt. The read timeout
  is retried, the session raises \<open>ConnectionError\<close> and \<open>health\<close> raises
  \<open>NenDBConnectionError\<close>, where the claim has \<open>NenDBTimeoutError\<close>. When the
  connection itself times out the same call raises \<open>NenDBTimeoutError\<close>.
\<close>

theorem read_timeout_degraded_to_connection_error:
  "init (always ReadTimedOut) None None None None True =
     Inr (default_client (always ReadTimedOut))
   \<and> (\<exists>e. fst (health (default_client (always ReadTimedOut))) = Inl (Nen e) \<and>
          kind e = NenDBConnectionError)
   \<and> (\<exists>e. fst (health (default_client (always ConnectTimedOut))) = Inl (Nen e) \<and>
          kind e = NenDBTimeoutError)"
proof -
  have b: "behaviour (session (default_client net)) = behaviour (create_session net 3)" for net
    by (simp add: default_client_def)
  have 1: "\<exists>e. fst (health (default_client (always ReadTimedOut))) = Inl (Nen e) \<and>
          kind e = NenDBConnectionError"
    unfolding health_def by (rule own_session_read_timeout [OF b]) simp
  have 2: "\<exists>e. fst (health (default_client (always ConnectTimedOut))) = Inl (Nen e) \<and>
          kind e = NenDBTimeoutError"
    unfolding health_def by (rule own_session_connect_timeout [OF b])
  from init_default_client 1 2 show ?thesis by blast
qed

section \<open>Construction and release\<close>

lemma health_config:
  "base_url (snd (health c)) = base_url c"
  "timeout (snd (health c)) = timeout c"
  "retries (snd (health c)) = retries c"
  by (simp_all add: health_def make_request_config)

text \<open>The configuration of a constructed client, with or without the health probe.\<close>

lemma init_config:
  assumes "init net base_url_arg timeout_arg retries_arg session_arg skip_validation = Inr c"
  shows "base_url c =
           rstrip (case base_url_arg of Some u \<Rightarrow> u | None \<Rightarrow> default_base_url) ''/''"
    and "timeout c = (case timeout_arg of Some n \<Rightarrow> n | None \<Rightarrow> default_timeout)"
    and "retries c = (case retries_arg of Some n \<Rightarrow> n | None \<Rightarrow> default_retries)"
proof -
  define c0 where "c0 =
    \<lparr>base_url = rstrip (case base_url_arg of Some u \<Rightarrow> u | None \<Rightarrow> default_base_url) ''/'',
     timeout = (case timeout_arg of Some n \<Rightarrow> n | None \<Rightarrow> default_timeout),
     retries = (case retries_arg of Some n \<Rightarrow> n | None \<Rightarrow> default_retries),
     session = (case session_arg of
                  Some s0 \<Rightarrow> if session_truthy s0 then s0
                             else create_session net
                                    (case retries_arg of Some n \<Rightarrow> n | None \<Rightarrow> default_retries)
                | None \<Rightarrow> create_session net
                           (case retries_arg of Some n \<Rightarrow> n | None \<Rightarrow> default_retries))\<rparr>"
  have "c = c0 \<or> c = snd (health c0)"
    using assms unfolding init_def Let_def c0_def [symmetric]
    by (auto split: if_splits prod.splits sum.splits)
  then have "base_url c = base_url c0 \<and> timeout c = timeout c0 \<and> retries c = retries c0"
    by (auto simp add: health_config)
  then show "base_url c =
           rstrip (case base_url_arg of Some u \<Rightarrow> u | None \<Rightarrow> default_base_url) ''/''"
    and "timeout c = (case timeout_arg of Some n \<Rightarrow> n | None \<Rightarrow> default_timeout)"
    and "retries c = (case retries_arg of Some n \<Rightarrow> n | None \<Rightarrow> default_retries)"
    by (simp_all add: c0_def)
qed

lemma init_skip_validation:
  "\<exists>c. init net base_url_arg timeout_arg retries_arg session_arg True = Inr c"
  by (simp add: init_def Let_def)

text \<open>
  Without \<open>skip_validation\<close> a timeout of the probe leaves the constructor as
  \<open>NenDBConnectionError\<close>, whatever \<open>_make_request\<close> made of it.
\<close>

lemma init_probe_timeout:
  "\<exists>e. init (always ConnectTimedOut) None None None None False = Inl (Nen e) \<and>
       kind e = NenDBConnectionError"
  by (simp add: init_def Let_def health_def make_request_def session_request_def
        try_body_def handlers_def create_session_def mk_exc_def session_truthy_def
        default_retries_def always_def urlopen.simps increment_def is_exhausted_def)

lemma rstrip_example: "rstrip ''http://example.com:9000'' ''/'' = ''http://example.com:9000''"
  by (simp add: rstrip_def)

lemma rstrip_default: "rstrip default_base_url ''/'' = ''http://localhost:8080''"
  by (simp add: rstrip_def default_base_url_def)

text \<open>
  Claim C7. Constructing a client with \<open>base_url = "http://example.com:9000"\<close> and
  \<open>timeout = 60\<close> succeeds when the probe is skipped, and every client the constructor
  returns reports that base url, the timeout and the retry count that were passed, and
  the defaults \<open>"http://localhost:8080"\<close>, 30 and 3 for the arguments that were omitted.
\<close>

theorem init_config_round_trip:
  "(\<exists>c. init net (Some ''http://example.com:9000'') (Some 60) None session_arg True = Inr c)
   \<and> (\<exists>c. init net None None None session_arg True = Inr c)
   \<and> (init net base_url_arg timeout_arg retries_arg session_arg skip_validation = Inr c \<longrightarrow>
        (base_url_arg = Some ''http://example.com:9000'' \<longrightarrow>
           base_url c = ''http://example.com:9000'')
      \<and> (base_url_arg = None \<longrightarrow> base_url c = ''http://localhost:8080'')
      \<and> (\<forall>t. timeout_arg = Some t \<longrightarrow> timeout c = t)
      \<and> (timeout_arg = None \<longrightarrow> timeout c = 30)
      \<and> (\<forall>r. retries_arg = Some r \<longrightarrow> retries c = r)
      \<and> (retries_arg = None \<longrightarrow> retries c = 3))"
proof -
  have g: "(base_url_arg = Some ''http://example.com:9000'' \<longrightarrow>
           base_url c = ''http://example.com:9000'')
      \<and> (base_url_arg = None \<longrightarrow> base_url c = ''http://localhost:8080'')
      \<and> (\<forall>t. timeout_arg = Some t \<longrightarrow> timeout c = t)
      \<and> (timeout_arg = None \<longrightarrow> timeout c = 30)
      \<and> (\<forall>r. retries_arg = Some r \<longrightarrow> retries c = r)
      \<and> (retries_arg = None \<longrightarrow> retries c = 3)"
    if i: "init net base_url_arg timeout_arg retries_arg session_arg skip_validation = Inr c"
    using init_config [OF i]
    by (auto simp add: rstrip_example rstrip_default default_timeout_def default_retries_def)
  from g init_skip_validation show ?thesis by blast
qed

theorem init_config_round_trip_witness:
  "base_url (projr (init (always (Answered ok_response))
       (Some ''http://example.com:9000'') (Some 60) None None True)) =
     ''http://example.com:9000''
   \<and> timeout (projr (init (always (Answered ok_response))
       (Some ''http://example.com:9000'') (Some 60) None None True)) = 60
   \<and> retries (projr (init (always (Answered ok_response))
       (Some ''http://example.com:9000'') (Some 60) None None True)) = 3
   \<and> base_url (projr (init (always (Answered ok_response)) None None None None True)) =
       ''http://localhost:8080''
   \<and> timeout (projr (init (always (Answered ok_response)) None None None None True)) = 30
   \<and> retries (projr (init (always (Answered ok_response)) None None None None True)) = 3"
proof -
  let ?net = "always (Answered ok_response)"
  have a: "init ?net (Some ''http://example.com:9000'') (Some 60) None None True =
        Inr (projr (init ?net (Some ''http://example.com:9000'') (Some 60) None None True))"
    by (simp add: init_def Let_def)
  have b: "init ?net None None None None True =
        Inr (projr (init ?net None None None None True))"
    by (simp add: init_def Let_def)
  from init_config_round_trip
         [where net = ?net and session_arg = None
            and base_url_arg = "Some ''http://example.com:9000''"
            and timeout_arg = "Some 60" and retries_arg = None and skip_validation = True
            and c = "projr (init ?net (Some ''http://example.com:9000'') (Some 60) None None
                       True)"] a
       init_config_round_trip
         [where net = ?net and session_arg = None and base_url_arg = None
            and timeout_arg = None and retries_arg = None and skip_validation = True
            and c = "projr (init ?net None None None None True)"] b
  show ?thesis by simp
qed

text \<open>What \<open>rstrip\<close> with a single character removes, and what it leaves.\<close>

lemma rstrip_decompose:
  "\<exists>n. s = rstrip s [ch] @ replicate n ch"
proof -
  define tw where "tw = takeWhile (\<lambda>x. x \<in> set [ch]) (rev s)"
  define dw where "dw = dropWhile (\<lambda>x. x \<in> set [ch]) (rev s)"
  have "rev s = tw @ dw" by (simp add: tw_def dw_def)
  then have "rev (rev s) = rev (tw @ dw)" by (rule arg_cong)
  then have s: "s = rev dw @ rev tw" by simp
  have "tw = replicate (length tw) ch"
    unfolding tw_def by (rule replicate_eqI) (auto dest: set_takeWhileD)
  then have "rev tw = rev (replicate (length tw) ch)" by (rule arg_cong)
  then have r: "rev tw = replicate (length tw) ch" by simp
  have "rstrip s [ch] = rev dw" by (simp add: rstrip_def dw_def)
  with s r have "s = rstrip s [ch] @ replicate (length tw) ch" by simp
  then show ?thesis ..
qed

lemma rstrip_last:
  "rstrip s [ch] = [] \<or> last (rstrip s [ch]) \<noteq> ch"
proof (cases "dropWhile (\<lambda>x. x \<in> set [ch]) (rev s) = []")
  case True
  then show ?thesis by (simp add: rstrip_def)
next
  case False
  then have "\<not> hd (dropWhile (\<lambda>x. x \<in> set [ch]) (rev s)) \<in> set [ch]"
    by (rule hd_dropWhile)
  with False show ?thesis by (simp add: rstrip_def last_rev)
qed

text \<open>
  Claim C10. For every \<open>base_url\<close> argument, the \<open>base_url\<close> of the constructed client
  is the argument without its trailing slashes: the argument is the attribute followed
  by slashes only, and the attribute does not end in a slash. An argument that ends in
  a slash is therefore not reported back as it was passed.
\<close>

theorem base_url_trailing_slashes_stripped:
  assumes "init net (Some b) timeout_arg retries_arg session_arg skip_validation = Inr c"
  shows "(\<exists>n. b = base_url c @ replicate n CHR ''/'')
       \<and> (base_url c = [] \<or> last (base_url c) \<noteq> CHR ''/'')
       \<and> (b \<noteq> [] \<and> last b = CHR ''/'' \<longrightarrow> base_url c \<noteq> b)"
proof -
  have u: "base_url c = rstrip b ''/''"
    using init_config(1) [OF assms] by simp
  have 1: "\<exists>n. b = base_url c @ replicate n CHR ''/''"
    unfolding u by (rule rstrip_decompose)
  have 2: "base_url c = [] \<or> last (base_url c) \<noteq> CHR ''/''"
    unfolding u by (rule rstrip_last)
  from 1 2 show ?thesis by auto
qed

theorem base_url_trailing_slashes_stripped_witness:
  "base_url (projr (init (always (Answered ok_response))
       (Some ''http://example.com:9000//'') None None None True)) =
     ''http://example.com:9000''
   \<and> base_url (projr (init (always (Answered ok_response))
       (Some ''http://example.com:9000//'') None None None True)) \<noteq>
     ''http://example.com:9000//''"
proof -
  let ?net = "always (Answered ok_response)"
  let ?c = "projr (init ?net (Some ''http://example.com:9000//'') None None None True)"
  have i: "init ?net (Some ''http://example.com:9000//'') None None None True = Inr ?c"
    by (simp add: init_def Let_def)
  have v: "base_url ?c = ''http://example.com:9000''"
    by (simp add: init_def Let_def rstrip_def)
  from base_url_trailing_slashes_stripped [OF i] have "base_url ?c \<noteq> ''http://example.com:9000//''"
    by simp
  with v show ?thesis by simp
qed

text \<open>Closing a session disposes the pools it holds, once.\<close>

lemma session_close_fields:
  "pools (session_close s) = []"
  "disposed (session_close s) = disposed s @ pools s"
  "calls (session_close s) = calls s"
  by (simp_all add: session_close_def)

lemma session_close_twice: "session_close (session_close s) = session_close s"
  by (simp add: session_close_def)

text \<open>
  Claim C8. \<open>close\<close> raises nothing and closing twice is closing once: the second call
  finds no pool left and disposes nothing, so that no pool is disposed twice, and
  \<open>close\<close> changes neither the configuration nor the log of requests.
\<close>

theorem close_idempotent:
  "close (close c) = close c
   \<and> disposed (session (close (close c))) = disposed (session (close c))
   \<and> pools (session (close c)) = []
   \<and> (distinct (disposed (session c) @ pools (session c)) \<longrightarrow>
        distinct (disposed (session (close (close c)))))
   \<and> base_url (close c) = base_url c
   \<and> timeout (close c) = timeout c
   \<and> retries (close c) = retries c
   \<and> calls (session (close c)) = calls (session c)"
proof -
  have once: "close c = c\<lparr>session := session_close (session c)\<rparr>"
    by (simp add: close_def session_truthy_def)
  have twice: "close (close c) = close c"
    by (simp add: close_def session_truthy_def session_close_twice)
  have log: "disposed (session (close c)) = disposed (session c) @ pools (session c)"
    unfolding once by (simp add: session_close_fields)
  have empty: "pools (session (close c)) = []"
    unfolding once by (simp add: session_close_fields)
  have config: "base_url (close c) = base_url c" "timeout (close c) = timeout c"
    "retries (close c) = retries c" "calls (session (close c)) = calls (session c)"
    unfolding once by (simp_all add: session_close_fields)
  from twice log empty config show ?thesis by simp
qed

theorem close_idempotent_witness:
  "disposed (session (close pooled_client)) = [1, 2]
   \<and> disposed (session (close (close pooled_client))) = [1, 2]
   \<and> pools (session (close (close pooled_client))) = []
   \<and> base_url (close (close pooled_client)) = ''http://localhost:8080''
   \<and> timeout (close (close pooled_client)) = 30
   \<and> retries (close (close pooled_client)) = 3"
proof -
  have d: "disposed (session (close pooled_client)) = [1, 2]"
    by (simp add: close_def session_close_def session_truthy_def pooled_client_def
          mock_session_def)
  have p: "base_url pooled_client = ''http://localhost:8080''" "timeout pooled_client = 30"
    "retries pooled_client = 3"
    by (simp_all add: pooled_client_def)
  from close_idempotent [of pooled_client] d p show ?thesis by simp
qed

end
